theory Spec2Isabelle
  imports Main "HOL-Library.Word"
begin

section \<open>JavaScript values used by the indexer\<close>

text \<open>
  A JavaScript Number is a double. The indexer only meets integral doubles, NaN and the
  infinities: block numbers, token amounts converted from decimal strings, and their
  sums and differences. A finite Number is modelled by its integer value; every
  conversion and every arithmetic result is rounded to the nearest double (53
  significant bits, ties to even) and overflows to an infinity. The sign of zero is not
  modelled.
\<close>

datatype jsnum = NaN | Number int | PosInf | NegInf

text \<open>The number of bits of a positive integer, and rounding to 53 significant bits.\<close>

function bit_len :: "int \<Rightarrow> nat" where
  "bit_len n = (if n \<le> 0 then 0 else Suc (bit_len (n div 2)))"
  by pat_completeness auto
termination
  by (relation "measure nat") auto

definition round_double :: "int \<Rightarrow> int" where
  "round_double n =
     (let b = bit_len n in
      if b \<le> 53 then n
      else
        let e = b - 53;
            q = n div 2 ^ e;
            r = n mod 2 ^ e;
            half = 2 ^ (e - 1);
            q' = (if half < r \<or> (r = half \<and> odd q) then q + 1 else q)
        in q' * 2 ^ e)"

text \<open>The double nearest to an integer: the value of \<open>Number(s)\<close> for its decimal string.\<close>

definition of_int_double :: "int \<Rightarrow> jsnum" where
  "of_int_double i =
     (let m = round_double \<bar>i\<bar> in
      if 1024 < bit_len m then (if i < 0 then NegInf else PosInf)
      else Number (if i < 0 then - m else m))"

fun num_neg :: "jsnum \<Rightarrow> jsnum" where
  "num_neg NaN = NaN"
| "num_neg (Number a) = Number (- a)"
| "num_neg PosInf = NegInf"
| "num_neg NegInf = PosInf"

fun num_add :: "jsnum \<Rightarrow> jsnum \<Rightarrow> jsnum" where
  "num_add (Number a) (Number b) = of_int_double (a + b)"
| "num_add NaN _ = NaN"
| "num_add _ NaN = NaN"
| "num_add PosInf NegInf = NaN"
| "num_add NegInf PosInf = NaN"
| "num_add PosInf _ = PosInf"
| "num_add _ PosInf = PosInf"
| "num_add NegInf _ = NegInf"
| "num_add _ NegInf = NegInf"

definition num_sub :: "jsnum \<Rightarrow> jsnum \<Rightarrow> jsnum" where
  "num_sub a b = num_add a (num_neg b)"

text \<open>\<open>Math.min\<close>: NaN as soon as one argument is NaN.\<close>

fun math_min :: "jsnum \<Rightarrow> jsnum \<Rightarrow> jsnum" where
  "math_min (Number a) (Number b) = Number (min a b)"
| "math_min NaN _ = NaN"
| "math_min _ NaN = NaN"
| "math_min NegInf _ = NegInf"
| "math_min _ NegInf = NegInf"
| "math_min PosInf b = b"
| "math_min a PosInf = a"

text \<open>Strict equality \<open>===\<close> on Numbers: NaN equals nothing, itself included.\<close>

fun num_strict_eq :: "jsnum \<Rightarrow> jsnum \<Rightarrow> bool" where
  "num_strict_eq (Number a) (Number b) = (a = b)"
| "num_strict_eq PosInf PosInf = True"
| "num_strict_eq NegInf NegInf = True"
| "num_strict_eq _ _ = False"

text \<open>
  The values that reach the document store: primitives, and ethers \<open>BigNumber\<close>
  objects (\<open>JBig\<close>, an arbitrary-precision integer).
\<close>

datatype jsval =
  JUndefined | JNull | JBool bool | JNum int | JNaN | JPosInf | JNegInf | JStr string | JBig int

fun of_jsnum :: "jsnum \<Rightarrow> jsval" where
  "of_jsnum NaN = JNaN"
| "of_jsnum (Number n) = JNum n"
| "of_jsnum PosInf = JPosInf"
| "of_jsnum NegInf = JNegInf"

subsection \<open>Decimal and hexadecimal strings\<close>

definition digit_char :: "nat \<Rightarrow> char" where
  "digit_char d = char_of (48 + d)"

fun nat_to_string :: "nat \<Rightarrow> string" where
  "nat_to_string n =
     (if n < 10 then [digit_char n] else nat_to_string (n div 10) @ [digit_char (n mod 10)])"

text \<open>The decimal string of an integer, as \<open>BigNumber.toString()\<close> gives it.\<close>

function dec_string :: "int \<Rightarrow> string" where
  "dec_string n =
     (if n < 10 then [digit_char (nat n)]
      else dec_string (n div 10) @ [digit_char (nat (n mod 10))])"
  by pat_completeness auto
termination
  by (relation "measure nat") auto

definition int_to_string :: "int \<Rightarrow> string" where
  "int_to_string i = (if i < 0 then CHR ''-'' # dec_string (- i) else dec_string i)"

text \<open>
  The string of a Number. The digits are those of the shortest decimal that rounds to
  the double: among the multiples of a power of ten with \<open>k\<close> significant digits next
  to \<open>x\<close>, for the least \<open>k\<close> that has one rounding to \<open>x\<close>, the one closest to
  \<open>x\<close>. Below \<open>2 ^ 53\<close> that is the integer itself. Up to 21 digits are written
  out, longer values in exponent notation.
\<close>

definition repr_candidates :: "int \<Rightarrow> nat \<Rightarrow> int list" where
  "repr_candidates x k =
     (let p = length (dec_string x) - k;
          lo = (x div 10 ^ p) * 10 ^ p;
          hi = lo + 10 ^ p
      in filter (\<lambda>v. round_double v = x) (if x - lo \<le> hi - x then [lo, hi] else [hi, lo]))"

definition shortest_repr :: "int \<Rightarrow> int" where
  "shortest_repr x =
     (if bit_len x \<le> 53 then x
      else case find (\<lambda>k. repr_candidates x k \<noteq> []) [1..<Suc (min 17 (length (dec_string x)))] of
             Some k \<Rightarrow> hd (repr_candidates x k)
           | None \<Rightarrow> x)"

definition strip_trailing_zeros :: "string \<Rightarrow> string" where
  "strip_trailing_zeros s = rev (dropWhile (\<lambda>c. c = CHR ''0'') (rev s))"

definition double_to_string :: "int \<Rightarrow> string" where
  "double_to_string x =
     (let digits = dec_string (shortest_repr x) in
      if length digits \<le> 21 then digits
      else
        (case strip_trailing_zeros digits of
           [] \<Rightarrow> digits
         | d # ds \<Rightarrow>
             d # (if ds = [] then [] else CHR ''.'' # ds) @ ''e+'' @ nat_to_string (length digits - 1)))"

text \<open>\<open>String(x)\<close> of a Number, as the key-value store client applies it to a numeric value.\<close>

fun num_to_string :: "jsnum \<Rightarrow> string" where
  "num_to_string NaN = ''NaN''"
| "num_to_string PosInf = ''Infinity''"
| "num_to_string NegInf = ''-Infinity''"
| "num_to_string (Number n) =
     (if n < 0 then CHR ''-'' # double_to_string (- n) else double_to_string n)"

text \<open>The value of a character as a digit in base 10 or 16; \<open>None\<close> when it is no digit.\<close>

definition digit_val :: "nat \<Rightarrow> char \<Rightarrow> nat option" where
  "digit_val radix c =
     (let k = (of_char c :: nat) in
      if 48 \<le> k \<and> k \<le> 57 then Some (k - 48)
      else if radix = 16 \<and> 97 \<le> k \<and> k \<le> 102 then Some (k - 87)
      else if radix = 16 \<and> 65 \<le> k \<and> k \<le> 70 then Some (k - 55)
      else None)"

fun digits_value :: "nat \<Rightarrow> int \<Rightarrow> string \<Rightarrow> int" where
  "digits_value radix acc [] = acc"
| "digits_value radix acc (c # cs) =
     (case digit_val radix c of
        None \<Rightarrow> acc
      | Some d \<Rightarrow> digits_value radix (acc * int radix + int d) cs)"

definition is_js_whitespace :: "char \<Rightarrow> bool" where
  "is_js_whitespace c = ((of_char c :: nat) \<in> {9, 10, 11, 12, 13, 32})"

definition strip_sign :: "string \<Rightarrow> bool \<times> string" where
  "strip_sign s =
     (case s of
        [] \<Rightarrow> (False, [])
      | c # cs \<Rightarrow> if c = CHR ''-'' then (True, cs) else if c = CHR ''+'' then (False, cs) else (False, s))"

definition strip_hex_prefix :: "string \<Rightarrow> (nat \<times> string)" where
  "strip_hex_prefix s =
     (case s of
        a # b # cs \<Rightarrow> if a = CHR ''0'' \<and> (b = CHR ''x'' \<or> b = CHR ''X'') then (16, cs) else (10, s)
      | _ \<Rightarrow> (10, s))"

text \<open>
  \<open>parseInt(s)\<close> without a radix: leading white space is skipped, a sign is read, a
  \<open>0x\<close> or \<open>0X\<close> prefix selects base 16, and the longest prefix of digits is the
  value, rounded to a double; NaN when there is no digit. (ASCII white space only.)
\<close>

definition parseInt :: "string \<Rightarrow> jsnum" where
  "parseInt s =
     (let (neg, s1) = strip_sign (dropWhile is_js_whitespace s);
          (radix, s2) = strip_hex_prefix s1;
          z = takeWhile (\<lambda>c. digit_val radix c \<noteq> None) s2
      in if z = [] then NaN
         else let v = digits_value radix 0 z in of_int_double (if neg then - v else v))"

text \<open>
  \<open>BigNumber.from(s)\<close> on a string. The string is accepted when it is an optional
  minus sign followed by \<open>0x\<close> (in either case) and at least one hexadecimal digit, or
  by at least one decimal digit; anything else throws, the empty payload \<open>0x\<close>
  included. With the upper-case prefix \<open>0X\<close> the object is built from a string that is
  no number: \<open>from\<close> returns, and the first use of the object (\<open>toString\<close>,
  \<open>gt\<close>) throws.
\<close>

datatype big_parse = BigThrows | BigUnusable | Big int

definition BigNumber_from :: "string \<Rightarrow> big_parse" where
  "BigNumber_from s =
     (let (neg, s1) = (case s of c # cs \<Rightarrow> if c = CHR ''-'' then (True, cs) else (False, s) | [] \<Rightarrow> (False, s));
          (radix, s2) = strip_hex_prefix s1
      in if s2 \<noteq> [] \<and> list_all (\<lambda>c. digit_val radix c \<noteq> None) s2
         then
           (if radix = 16 \<and> take 2 s1 \<noteq> ''0x'' then BigUnusable
            else let v = digits_value radix 0 s2 in Big (if neg then - v else v))
         else BigThrows)"

text \<open>The value of a usable \<open>BigNumber\<close>; \<open>None\<close> when building or using it throws.\<close>

fun big_value :: "big_parse \<Rightarrow> int option" where
  "big_value (Big v) = Some v"
| "big_value _ = None"

section \<open>Swap-pool resolver\<close>

text \<open>
  \<open>getSwapPoolCoinAddresses\<close>: the pool contract is the function \<open>getToken\<close>, which
  answers the read-only call for index \<open>i\<close> with a token address, or with \<open>None\<close>
  when the call rejects. The loop bound is the source's \<open>1 << 8\<close>, a shift on 32-bit
  integers. Besides the accumulated list the model returns the indices probed, in the
  order of the calls.
\<close>

definition probe_cap :: nat where
  "probe_cap = nat (sint (push_bit 8 (1 :: 32 word)))"

function probe_loop ::
  "(nat \<Rightarrow> string option) \<Rightarrow> nat \<Rightarrow> string list \<Rightarrow> nat list \<Rightarrow> string list \<times> nat list" where
  "probe_loop getToken i res calls =
     (if i < probe_cap then
        (case getToken i of
           Some tokenRes \<Rightarrow> probe_loop getToken (Suc i) (res @ [tokenRes]) (calls @ [i])
         | None \<Rightarrow> (res, calls @ [i]))
      else (res, calls))"
  by pat_completeness auto
termination
  by (relation "measure (\<lambda>(g, i, res, calls). probe_cap - i)") auto

definition getSwapPoolCoinAddresses :: "(nat \<Rightarrow> string option) \<Rightarrow> string list \<times> nat list" where
  "getSwapPoolCoinAddresses getToken = probe_loop getToken 0 [] []"

section \<open>Document store and upsert\<close>

text \<open>
  A JavaScript object literal is a map from property names to values; a property can
  be present with the value \<open>undefined\<close>.
\<close>

type_synonym obj = "string \<rightharpoonup> jsval"

type_synonym document = "string \<rightharpoonup> jsval"

text \<open>
  Modelled from the spec: the document store behind \<open>BridgeTransaction\<close>
  (\<open>db/transaction.js\<close> and the store itself are not part of the sources). The
  collection is the list of its documents in insertion order. \<open>findOne({kappa})\<close>
  returns the first document whose \<open>kappa\<close> field holds the given value, \<open>save\<close>
  appends a document, and \<open>findOneAndUpdate({kappa}, fields)\<close> sets the given fields
  on the first matching document and keeps its other fields. Properties whose value is
  \<open>undefined\<close> are not stored, so a filter value \<open>undefined\<close> finds no document.
  Values are stored as they are given (no conversion to a declared field type), and
  identifiers and time stamps that the store may add on its own are left out.
\<close>

type_synonym db = "document list"

definition stored_fields :: "obj \<Rightarrow> document" where
  "stored_fields args = (\<lambda>f. case args f of Some JUndefined \<Rightarrow> None | v \<Rightarrow> v)"

definition matches :: "jsval \<Rightarrow> document \<Rightarrow> bool" where
  "matches kappa d = (d ''kappa'' = Some kappa)"

definition findOne :: "jsval \<Rightarrow> db \<Rightarrow> document option" where
  "findOne kappa store = find (matches kappa) store"

definition save :: "obj \<Rightarrow> db \<Rightarrow> db" where
  "save args store = store @ [stored_fields args]"

fun findOneAndUpdate :: "jsval \<Rightarrow> obj \<Rightarrow> db \<Rightarrow> db" where
  "findOneAndUpdate kappa args [] = []"
| "findOneAndUpdate kappa args (d # ds) =
     (if matches kappa d then (d ++ stored_fields args) # ds
      else d # findOneAndUpdate kappa args ds)"

text \<open>\<open>upsertBridgeTxnInDb\<close>: insert when no document is found, update otherwise.\<close>

definition upsertBridgeTxnInDb :: "jsval \<Rightarrow> obj \<Rightarrow> db \<Rightarrow> db" where
  "upsertBridgeTxnInDb kappa args store =
     (case findOne kappa store of
        None \<Rightarrow> save args store
      | Some existingTxn \<Rightarrow> findOneAndUpdate kappa args store)"

section \<open>Chain data and external collaborators\<close>

datatype error = RpcError | StoreError | UnknownTopic | TypeError | BigNumberError | DecodeError

record chain_config =
  cfg_name :: string
  cfg_id :: int
  cfg_rpc :: string
  cfg_bridge :: string
  cfg_tokens :: "string \<rightharpoonup> string"  \<comment> \<open>token address to symbol\<close>

record receipt_log =
  log_address :: string
  log_topics :: "string list"
  log_data :: string

record transaction =
  txn_from :: string
  txn_data :: string

text \<open>
  The arguments of a parsed bridge event. A field is \<open>None\<close> when the parsed event has
  no argument of that name, so that reading it gives \<open>undefined\<close>; 256-bit amounts
  are \<open>BigNumber\<close> objects.
\<close>

record event_args =
  arg_to :: "string option"
  arg_chainId :: "int option"
  arg_token :: "string option"
  arg_amount :: "int option"
  arg_fee :: "int option"
  arg_swapTokenIndex :: "nat option"
  arg_swapSuccess :: "bool option"
  arg_kappa :: "string option"

definition no_args :: event_args where
  "no_args = \<lparr>arg_to = None, arg_chainId = None, arg_token = None, arg_amount = None,
     arg_fee = None, arg_swapTokenIndex = None, arg_swapSuccess = None, arg_kappa = None\<rparr>"

record event_info =
  eventName :: string
  direction :: string

text \<open>
  An event as the log query returns it. Its three getters are asynchronous calls to the
  chain reader: each resolves (\<open>Inr\<close>) or rejects (\<open>Inl\<close>). \<open>getTransaction\<close> may
  resolve to \<open>null\<close> (\<open>None\<close>); \<open>getBlock\<close> is reduced to the block's time stamp
  and \<open>getTransactionReceipt\<close> to the receipt's logs.
\<close>

record event =
  transactionHash :: string
  ev_topics :: "string list"
  getTransaction :: "error + transaction option"
  getBlock :: "error + int"
  getTransactionReceipt :: "error + receipt_log list"

text \<open>
  The collaborators that are not part of the sources are parameters:
  \<^item> \<open>getEventForTopic\<close> and \<open>getTopicsHash\<close> (\<open>config/topics.js\<close>). Modelled from
    the spec: the classifier fails on a topic hash that is absent from the static
    table; \<open>None\<close> stands for that failure.
  \<^item> \<open>parseLog\<close>: the bridge interface's \<open>parseLog(log).args\<close>;
    \<open>decodeFunctionData\<close>: the decoded call input, reduced to its \<open>pool\<close> field.
  \<^item> \<open>getToken\<close>: the read-only pool call, per pool address and index.
  \<^item> \<open>getTokenContract\<close> (\<open>config/chainConfig.js\<close>): it throws, or returns a token
    contract, which is reduced to \<open>interface.parseLog(log).args.value\<close>.
  \<^item> \<open>keccak256\<close>: the hash of the UTF-8 bytes of a string.
  \<^item> \<open>getBlockNumber\<close> (together with \<open>getW3Provider\<close>; the provider returns a
    block number that is a safe integer), \<open>getAddress\<close> and \<open>queryFilter\<close>: the
    calls of the indexing loop.
  \<^item> \<open>kv_rejects\<close>: the calls to the key-value store that reject. A rejected write
    leaves the store as it was.
\<close>

text \<open>
  The calls of \<open>indexForward\<close> to the key-value store, one per place in the source:
  the read and the write of the lock before the \<open>try\<close> block, the read of the
  checkpoint, the release on the up-to-date return, the write of the checkpoint, the
  release after it, the disconnect, and the release in the \<open>catch\<close> clause.
\<close>

datatype kv_call =
  GetLock | SetLock | GetCheckpoint | SetUnlockUpToDate | SetCheckpoint | SetUnlock |
  Disconnect | SetUnlockCatch

record env =
  getEventForTopic :: "string option \<Rightarrow> event_info option"
  getTopicsHash :: "string list"
  parseLog :: "receipt_log \<Rightarrow> error + event_args"
  decodeFunctionData :: "string option \<Rightarrow> string \<Rightarrow> error + string"
  getToken :: "string \<Rightarrow> nat \<Rightarrow> string option"
  getTokenContract :: "int \<Rightarrow> string option \<Rightarrow> error + (receipt_log \<Rightarrow> error + int option)"
  keccak256 :: "string \<Rightarrow> string"
  getBlockNumber :: "error + int"
  getAddress :: "string \<Rightarrow> error + string"
  queryFilter :: "string \<Rightarrow> jsnum \<Rightarrow> jsnum \<Rightarrow> error + event list"
  kv_rejects :: "kv_call \<Rightarrow> bool"

section \<open>Payload extraction\<close>

definition getFunctionForEvent :: "string \<Rightarrow> string option" where
  "getFunctionForEvent name =
     (if name = ''TokenWithdrawAndRemove'' then Some ''withdrawAndRemove''
      else if name = ''TokenMintAndSwap'' then Some ''mintAndSwap''
      else None)"

text \<open>
  \<open>getEventLogArgs\<close>: the outer loop runs over the registered topic hashes, the inner
  one over the logs; the first log that carries the hash is parsed. With no such log
  the result is the empty object.
\<close>

fun event_log_args_loop :: "env \<Rightarrow> string list \<Rightarrow> receipt_log list \<Rightarrow> error + event_args" where
  "event_log_args_loop e [] logs = Inr no_args"
| "event_log_args_loop e (topicHash # rest) logs =
     (case find (\<lambda>log. topicHash \<in> set (log_topics log)) logs of
        Some log \<Rightarrow> parseLog e log
      | None \<Rightarrow> event_log_args_loop e rest logs)"

definition getEventLogArgs :: "env \<Rightarrow> receipt_log list \<Rightarrow> error + event_args" where
  "getEventLogArgs e logs = event_log_args_loop e (getTopicsHash e) logs"

record transfer_info =
  sentTokenAddress :: "string option"
  sentTokenSymbol :: "string option"
  sentValue :: "string option"

text \<open>
  \<open>parseTransferLog\<close>: the first log emitted by a registered token. On chain 1 and
  for a symbol other than WETH the value is the token contract's parsed \<open>value\<close>; an
  exception there is caught and the raw data stays. \<open>BigNumber.from(...).toString()\<close>
  throws on \<open>undefined\<close> and on a string that is no number.
\<close>

definition parseTransferLog :: "env \<Rightarrow> chain_config \<Rightarrow> receipt_log list \<Rightarrow> error + transfer_info" where
  "parseTransferLog e chainConfig logs =
     (case find (\<lambda>log. cfg_tokens chainConfig (log_address log) \<noteq> None) logs of
        None \<Rightarrow> Inr \<lparr>sentTokenAddress = None, sentTokenSymbol = None, sentValue = None\<rparr>
      | Some log \<Rightarrow>
          let symbol = cfg_tokens chainConfig (log_address log);
              raw = big_value (BigNumber_from (log_data log));
              big =
                (if symbol \<noteq> Some ''WETH'' \<and> cfg_id chainConfig = 1 then
                   (case getTokenContract e (cfg_id chainConfig) (Some (log_address log)) of
                      Inl err \<Rightarrow> raw
                    | Inr tokenContract \<Rightarrow>
                        (case tokenContract log of
                           Inl err \<Rightarrow> raw
                         | Inr v \<Rightarrow> v))
                 else raw)
          in (case big of
                None \<Rightarrow> Inl BigNumberError
              | Some v \<Rightarrow>
                  Inr \<lparr>sentTokenAddress = Some (log_address log), sentTokenSymbol = symbol,
                       sentValue = Some (int_to_string v)\<rparr>))"

text \<open>
  Reading a property of a string primitive: \<open>length\<close>, or the character at a
  canonical numeric index; every other name used by the indexer is \<open>undefined\<close>
  (the methods inherited from the prototype are not modelled, none has a name read here).
\<close>

definition string_property :: "string \<Rightarrow> string \<Rightarrow> jsval" where
  "string_property s p =
     (if p = ''length'' then JNum (int (length s))
      else case find (\<lambda>i. nat_to_string i = p) [0..<length s] of
             Some i \<Rightarrow> JStr [s ! i]
           | None \<Rightarrow> JUndefined)"

fun js_string :: "string option \<Rightarrow> jsval" where
  "js_string None = JUndefined"
| "js_string (Some s) = JStr s"

fun js_bool :: "bool option \<Rightarrow> jsval" where
  "js_bool None = JUndefined"
| "js_bool (Some b) = JBool b"

text \<open>
  The OUT branch: the partial record passed to the upsert, with its kappa. The
  statements run in the source's order, so the first one that throws decides the error:
  \<open>eventLogArgs.chainId.toString()\<close>, the destructuring of \<open>txn.from\<close>,
  \<open>parseTransferLog\<close>.
\<close>

definition process_out ::
  "env \<Rightarrow> chain_config \<Rightarrow> string \<Rightarrow> transaction option \<Rightarrow> int \<Rightarrow> event_args \<Rightarrow>
   receipt_log list \<Rightarrow> error + (jsval \<times> obj)" where
  "process_out e chainConfig txnHash txn timestamp eventLogArgs logs =
     (case arg_chainId eventLogArgs of
        None \<Rightarrow> Inl TypeError
      | Some chainId \<Rightarrow>
          (case txn of
             None \<Rightarrow> Inl TypeError
           | Some t \<Rightarrow>
               let toChainId = int_to_string chainId;
                   toAddress = arg_to eventLogArgs;
                   fromAddress = string_property (txn_from t) ''fromAddress''
               in (case parseTransferLog e chainConfig logs of
                    Inl err \<Rightarrow> Inl err
                  | Inr tr \<Rightarrow>
                      let kappa = JStr (keccak256 e txnHash) in
                      Inr (kappa, map_of
                        [(''fromTxnHash'', JStr txnHash),
                         (''fromAddress'', fromAddress),
                         (''toAddress'', js_string toAddress),
                         (''fromChainId'', JNum (cfg_id chainConfig)),
                         (''toChainId'', JStr toChainId),
                         (''sentValue'', js_string (sentValue tr)),
                         (''sentTokenAddress'', js_string (sentTokenAddress tr)),
                         (''sentTokenSymbol'', js_string (sentTokenSymbol tr)),
                         (''kappa'', kappa),
                         (''sentTime'', JNum timestamp),
                         (''pending'', JBool True)]))))"

subsection \<open>The IN branch\<close>

text \<open>
  The values \<open>receivedValue\<close> takes: \<open>null\<close>, \<open>undefined\<close>, a Number (after a
  subtraction) or a \<open>BigNumber\<close> object (from a parsed log).
\<close>

datatype rvalue = RNull | RUndefined | RNum jsnum | RBig int

fun truthy_rvalue :: "rvalue \<Rightarrow> bool" where
  "truthy_rvalue RNull = False"
| "truthy_rvalue RUndefined = False"
| "truthy_rvalue (RNum NaN) = False"
| "truthy_rvalue (RNum (Number n)) = (n \<noteq> 0)"
| "truthy_rvalue (RNum PosInf) = True"
| "truthy_rvalue (RNum NegInf) = True"
| "truthy_rvalue (RBig n) = True"

text \<open>
  Conversion to a Number, as the operator \<open>-\<close> applies it. A \<open>BigNumber\<close> has no
  \<open>valueOf\<close> of its own, so its decimal \<open>toString()\<close> is converted: the result
  is the double nearest to the integer.
\<close>

fun to_number :: "rvalue \<Rightarrow> jsnum" where
  "to_number RNull = Number 0"
| "to_number RUndefined = NaN"
| "to_number (RNum n) = n"
| "to_number (RBig n) = of_int_double n"

fun big_to_number :: "int option \<Rightarrow> jsnum" where
  "big_to_number None = NaN"
| "big_to_number (Some n) = of_int_double n"

fun js_rvalue :: "rvalue \<Rightarrow> jsval" where
  "js_rvalue RNull = JNull"
| "js_rvalue RUndefined = JUndefined"
| "js_rvalue (RNum n) = of_jsnum n"
| "js_rvalue (RBig n) = JBig n"

fun truthy :: "jsval \<Rightarrow> bool" where
  "truthy JUndefined = False"
| "truthy JNull = False"
| "truthy (JBool b) = b"
| "truthy (JNum n) = (n \<noteq> 0)"
| "truthy JNaN = False"
| "truthy JPosInf = True"
| "truthy JNegInf = True"
| "truthy (JStr s) = (s \<noteq> [])"
| "truthy (JBig n) = True"

text \<open>
  \<open>receivedValue !== data.amount\<close>. \<open>data.amount\<close> is \<open>undefined\<close> or a
  \<open>BigNumber\<close> object of the bridge event; \<open>receivedValue\<close> is a primitive or an
  object made by another call of \<open>parseLog\<close>, so the two are never the same object
  and only \<open>undefined\<close> is strictly equal to \<open>undefined\<close>.
\<close>

fun strict_neq_amount :: "rvalue \<Rightarrow> int option \<Rightarrow> bool" where
  "strict_neq_amount RUndefined None = False"
| "strict_neq_amount _ _ = True"

definition array_get :: "'a list \<Rightarrow> nat option \<Rightarrow> 'a option" where
  "array_get xs i = (case i of None \<Rightarrow> None | Some n \<Rightarrow> if n < length xs then Some (xs ! n) else None)"

definition ChainId_ETH :: int where
  "ChainId_ETH = 1"

record in_data =
  data_to :: "string option"
  data_fee :: "int option"
  data_amount :: "int option"

record in_vars =
  receivedValue :: rvalue
  receivedToken :: "string option"
  swapSuccess :: jsval
  data :: in_data

text \<open>
  The branch on the event name. \<open>Inr None\<close> is the \<open>continue\<close> of an event name
  that is not covered. In the swap branch \<open>data\<close> has no \<open>amount\<close>; in the direct
  branch \<open>swapSuccess\<close> stays \<open>null\<close>.
\<close>

definition in_branch ::
  "env \<Rightarrow> chain_config \<Rightarrow> string \<Rightarrow> transaction option \<Rightarrow> event_args \<Rightarrow> error + in_vars option" where
  "in_branch e chainConfig name txn eventLogArgs =
     (if name = ''TokenWithdrawAndRemove'' \<or> name = ''TokenMintAndSwap'' then
        (case txn of
           None \<Rightarrow> Inl TypeError
         | Some t \<Rightarrow>
             (case decodeFunctionData e (getFunctionForEvent name) (txn_data t) of
                Inl err \<Rightarrow> Inl err
              | Inr pool \<Rightarrow>
                  let swapPoolAddresses = fst (getSwapPoolCoinAddresses (getToken e pool));
                      tok =
                        (if arg_swapSuccess eventLogArgs = Some True then
                           array_get swapPoolAddresses (arg_swapTokenIndex eventLogArgs)
                         else if cfg_id chainConfig = ChainId_ETH then
                           Some ''0x1b84765de8b7566e4ceaf4d0fd3c5af52d3dde4f''
                         else array_get swapPoolAddresses (Some 0))
                  in Inr (Some \<lparr>receivedValue = RNull, receivedToken = tok,
                        swapSuccess = js_bool (arg_swapSuccess eventLogArgs),
                        data = \<lparr>data_to = arg_to eventLogArgs, data_fee = arg_fee eventLogArgs,
                                 data_amount = None\<rparr>\<rparr>)))
      else if name = ''TokenWithdraw'' \<or> name = ''TokenMint'' then
        Inr (Some \<lparr>receivedValue =
                     (if name = ''TokenWithdraw''
                      then RNum (num_sub (big_to_number (arg_amount eventLogArgs))
                                         (big_to_number (arg_fee eventLogArgs)))
                      else RNull),
                   receivedToken = arg_token eventLogArgs,
                   swapSuccess = JNull,
                   data = \<lparr>data_to = arg_to eventLogArgs, data_fee = arg_fee eventLogArgs,
                            data_amount = arg_amount eventLogArgs\<rparr>\<rparr>)
      else Inr None)"

definition remap_gmx :: "chain_config \<Rightarrow> string option \<Rightarrow> string option" where
  "remap_gmx chainConfig tok =
     (if cfg_id chainConfig = 43114 \<and> tok = Some ''0x20A9DC684B4d0407EF8C9A302BEAaA18ee15F656''
      then Some ''0x62edc0692BD897D2295872a9FFCac5425011c661'' else tok)"

text \<open>
  The search of the logs for the received value, entered when \<open>receivedValue\<close> is
  falsy. The token contract is built before the loop; the first log of the received
  token is parsed.
\<close>

definition scan_received_value ::
  "env \<Rightarrow> chain_config \<Rightarrow> receipt_log list \<Rightarrow> string option \<Rightarrow> rvalue \<Rightarrow> error + rvalue" where
  "scan_received_value e chainConfig logs tok rv =
     (if truthy_rvalue rv then Inr rv
      else case getTokenContract e (cfg_id chainConfig) tok of
             Inl err \<Rightarrow> Inl err
           | Inr tokenContract \<Rightarrow>
               (case find (\<lambda>log. Some (log_address log) = tok) logs of
                  None \<Rightarrow> Inr rv
                | Some log \<Rightarrow>
                    (case tokenContract log of
                       Inl err \<Rightarrow> Inl err
                     | Inr None \<Rightarrow> Inr RUndefined
                     | Inr (Some v) \<Rightarrow> Inr (RBig v))))"

text \<open>
  The rescan of the mint correction: every log overwrites the candidate value and
  token; the loop breaks when \<open>data.amount.gt(receivedValue)\<close>.
\<close>

fun mint_rescan ::
  "int option \<Rightarrow> receipt_log list \<Rightarrow> rvalue \<times> string option \<Rightarrow> error + rvalue \<times> string option" where
  "mint_rescan amount [] cur = Inr cur"
| "mint_rescan amount (log # rest) cur =
     (case BigNumber_from (log_data log) of
        BigThrows \<Rightarrow> Inl BigNumberError
      | BigUnusable \<Rightarrow>
          (case amount of
             None \<Rightarrow> Inl TypeError
           | Some a \<Rightarrow> Inl BigNumberError)
      | Big v \<Rightarrow>
          (case amount of
             None \<Rightarrow> Inl TypeError
           | Some a \<Rightarrow>
               if a > v then Inr (RBig v, Some (log_address log))
               else mint_rescan amount rest (RBig v, Some (log_address log))))"

definition mint_correction ::
  "string \<Rightarrow> int option \<Rightarrow> receipt_log list \<Rightarrow> rvalue \<times> string option \<Rightarrow>
   error + rvalue \<times> string option" where
  "mint_correction name amount logs cur =
     (if name = ''TokenMint'' then
        (if strict_neq_amount (fst cur) amount then mint_rescan amount logs cur else Inr cur)
      else Inr cur)"

definition fee_adjust :: "jsval \<Rightarrow> int option \<Rightarrow> rvalue \<Rightarrow> rvalue" where
  "fee_adjust swapSucc fee rv =
     (if \<not> truthy swapSucc then RNum (num_sub (to_number rv) (big_to_number fee)) else rv)"

definition token_key :: "string option \<Rightarrow> string" where
  "token_key tok = (case tok of None \<Rightarrow> ''undefined'' | Some t \<Rightarrow> t)"

definition in_record ::
  "chain_config \<Rightarrow> string \<Rightarrow> int \<Rightarrow> jsval \<Rightarrow> in_data \<Rightarrow> jsval \<Rightarrow> rvalue \<Rightarrow> string option \<Rightarrow> obj" where
  "in_record chainConfig txnHash timestamp kappa d swapSucc rv tok =
     map_of
       [(''toTxnHash'', JStr txnHash),
        (''toAddress'', js_string (data_to d)),
        (''receivedValue'', js_rvalue rv),
        (''receivedTokenAddress'', js_string tok),
        (''receivedTokenSymbol'', js_string (cfg_tokens chainConfig (token_key tok))),
        (''swapSuccess'', swapSucc),
        (''kappa'', kappa),
        (''receivedTime'', JNum timestamp),
        (''toChainId'', JNum (cfg_id chainConfig)),
        (''pending'', JBool False)]"

definition process_in ::
  "env \<Rightarrow> chain_config \<Rightarrow> string \<Rightarrow> string \<Rightarrow> transaction option \<Rightarrow> int \<Rightarrow> event_args \<Rightarrow>
   receipt_log list \<Rightarrow> error + (jsval \<times> obj) option" where
  "process_in e chainConfig name txnHash txn timestamp eventLogArgs logs =
     (let kappa = js_string (arg_kappa eventLogArgs) in
      case in_branch e chainConfig name txn eventLogArgs of
        Inl err \<Rightarrow> Inl err
      | Inr None \<Rightarrow> Inr None
      | Inr (Some v) \<Rightarrow>
          let tok = remap_gmx chainConfig (receivedToken v) in
          (case scan_received_value e chainConfig logs tok (receivedValue v) of
             Inl err \<Rightarrow> Inl err
           | Inr rv \<Rightarrow>
               if \<not> truthy_rvalue rv then Inr None
               else
                 (case mint_correction name (data_amount (data v)) logs (rv, tok) of
                    Inl err \<Rightarrow> Inl err
                  | Inr (rv', tok') \<Rightarrow>
                      Inr (Some (kappa,
                        in_record chainConfig txnHash timestamp kappa (data v) (swapSuccess v)
                          (fee_adjust (swapSuccess v) (data_fee (data v)) rv') tok')))))"

section \<open>Processing a batch of events\<close>

text \<open>
  One iteration of the loop of \<open>processEvents\<close>, up to its single write: an
  exception (\<open>Inl\<close>), a \<open>continue\<close> without a record (\<open>Inr None\<close>), or the kappa
  and the partial record handed to the upsert.
\<close>

definition extract_event :: "env \<Rightarrow> chain_config \<Rightarrow> event \<Rightarrow> error + (jsval \<times> obj) option" where
  "extract_event e chainConfig ev =
     (case getTransaction ev of
        Inl err \<Rightarrow> Inl err
      | Inr txn \<Rightarrow>
     (case getBlock ev of
        Inl err \<Rightarrow> Inl err
      | Inr timestamp \<Rightarrow>
     (case getEventForTopic e (array_get (ev_topics ev) (Some 0)) of
        None \<Rightarrow> Inl UnknownTopic
      | Some eventInfo \<Rightarrow>
     (case getTransactionReceipt ev of
        Inl err \<Rightarrow> Inl err
      | Inr logs \<Rightarrow>
     (case getEventLogArgs e logs of
        Inl err \<Rightarrow> Inl err
      | Inr eventLogArgs \<Rightarrow>
          if direction eventInfo = ''OUT'' then
            (case process_out e chainConfig (transactionHash ev) txn timestamp eventLogArgs logs of
               Inl err \<Rightarrow> Inl err
             | Inr r \<Rightarrow> Inr (Some r))
          else process_in e chainConfig (eventName eventInfo) (transactionHash ev) txn timestamp
                 eventLogArgs logs)))))"

text \<open>
  \<open>processEvents\<close> threads the document store through the batch. An exception leaves
  the loop: the result is the store as the earlier events left it, and the error.
\<close>

fun processEvents :: "env \<Rightarrow> chain_config \<Rightarrow> event list \<Rightarrow> db \<Rightarrow> db \<times> error option" where
  "processEvents e chainConfig [] store = (store, None)"
| "processEvents e chainConfig (ev # evs) store =
     (case extract_event e chainConfig ev of
        Inl err \<Rightarrow> (store, Some err)
      | Inr None \<Rightarrow> processEvents e chainConfig evs store
      | Inr (Some (kappa, args)) \<Rightarrow>
          processEvents e chainConfig evs (upsertBridgeTxnInDb kappa args store))"

section \<open>The indexing loop\<close>

text \<open>
  The key-value store maps keys to strings. The two keys of a chain are its name
  followed by a suffix.
\<close>

type_synonym redis = "string \<rightharpoonup> string"

definition lock_key :: "chain_config \<Rightarrow> string" where
  "lock_key chainConfig = cfg_name chainConfig @ ''_IS_INDEXING_FORWARD''"

definition block_key :: "chain_config \<Rightarrow> string" where
  "block_key chainConfig = cfg_name chainConfig @ ''_LATEST_BLOCK_INDEXED''"

text \<open>
  How a pass ends. \<open>Failed\<close> is a pass whose \<open>catch\<close> clause ran to its end; it
  carries the window of the pass when the window had been computed. \<open>Rejected\<close> is
  an exception that leaves \<open>indexForward\<close>: from a call before the \<open>try\<close> block or
  from the release in the \<open>catch\<close> clause.
\<close>

datatype outcome =
  AlreadyRunning | UpToDate | Indexed jsnum jsnum | Failed error "(jsnum \<times> jsnum) option" |
  Rejected error


text \<open>
  \<open>indexedLatestBlock\<close>: the stored string parsed by \<open>parseInt\<close> when it is truthy
  (present and not empty), the network's latest block otherwise.
\<close>

definition indexed_latest_block :: "redis \<Rightarrow> chain_config \<Rightarrow> int \<Rightarrow> jsnum" where
  "indexed_latest_block r chainConfig networkLatestBlock =
     (case r (block_key chainConfig) of
        None \<Rightarrow> Number networkLatestBlock
      | Some s \<Rightarrow> if s = [] then Number networkLatestBlock else parseInt s)"

definition max_block_to_index_until :: "jsnum \<Rightarrow> int \<Rightarrow> jsnum" where
  "max_block_to_index_until indexedLatestBlock networkLatestBlock =
     math_min (Number networkLatestBlock) (num_add indexedLatestBlock (Number 500))"

text \<open>
  The body of the \<open>try\<close> block, started with the lock already set. \<open>Inl\<close> is an
  exception that reaches the \<open>catch\<close> clause, with the window if it had been
  computed; the stores are returned as they are at that moment.
\<close>

definition try_body ::
  "env \<Rightarrow> chain_config \<Rightarrow> redis \<Rightarrow> db \<Rightarrow>
   (error \<times> (jsnum \<times> jsnum) option + outcome) \<times> redis \<times> db" where
  "try_body e chainConfig r store =
     (case getBlockNumber e of
        Inl err \<Rightarrow> (Inl (err, None), r, store)
      | Inr networkLatestBlock \<Rightarrow>
          if kv_rejects e GetCheckpoint then (Inl (StoreError, None), r, store)
          else
          let indexedLatestBlock = indexed_latest_block r chainConfig networkLatestBlock in
          if num_strict_eq indexedLatestBlock (Number networkLatestBlock) then
            (if kv_rejects e SetUnlockUpToDate then (Inl (StoreError, None), r, store)
             else (Inr UpToDate, r(lock_key chainConfig \<mapsto> ''false''), store))
          else
            let maxBlockToIndexUntil = max_block_to_index_until indexedLatestBlock networkLatestBlock;
                w = Some (indexedLatestBlock, maxBlockToIndexUntil)
            in
            (case getAddress e (cfg_bridge chainConfig) of
               Inl err \<Rightarrow> (Inl (err, w), r, store)
             | Inr bridgeContractAddress \<Rightarrow>
                 (case queryFilter e bridgeContractAddress indexedLatestBlock maxBlockToIndexUntil of
                    Inl err \<Rightarrow> (Inl (err, w), r, store)
                  | Inr filteredEvents \<Rightarrow>
                      (case processEvents e chainConfig filteredEvents store of
                         (store', Some err) \<Rightarrow> (Inl (err, w), r, store')
                       | (store', None) \<Rightarrow>
                           if kv_rejects e SetCheckpoint then (Inl (StoreError, w), r, store')
                           else
                             let r1 = r(block_key chainConfig \<mapsto> num_to_string maxBlockToIndexUntil) in
                             if kv_rejects e SetUnlock then (Inl (StoreError, w), r1, store')
                             else
                               let r2 = r1(lock_key chainConfig \<mapsto> ''false'') in
                               if kv_rejects e Disconnect then (Inl (StoreError, w), r2, store')
                               else (Inr (Indexed indexedLatestBlock maxBlockToIndexUntil), r2, store')))))"

definition indexForward ::
  "env \<Rightarrow> chain_config \<Rightarrow> redis \<times> db \<Rightarrow> outcome \<times> redis \<times> db" where
  "indexForward e chainConfig st =
     (let (r, store) = st in
      if kv_rejects e GetLock then (Rejected StoreError, r, store)
      else if r (lock_key chainConfig) = Some ''true'' then (AlreadyRunning, r, store)
      else if kv_rejects e SetLock then (Rejected StoreError, r, store)
      else
        (case try_body e chainConfig (r(lock_key chainConfig \<mapsto> ''true'')) store of
           (Inl (err, w), r', store') \<Rightarrow>
             if kv_rejects e SetUnlockCatch then (Rejected StoreError, r', store')
             else (Failed err w, r'(lock_key chainConfig \<mapsto> ''false''), store')
         | (Inr out, r', store') \<Rightarrow> (out, r', store')))"

section \<open>A concrete chain\<close>

text \<open>
  A small chain used to run the definitions: one registered token, three registered
  topics, a pool of three coins, a bridge interface whose parsed amount is the number
  in the log's data and whose fee is 10, and a key-value store that answers every call.
\<close>

definition example_config :: chain_config where
  "example_config =
     \<lparr>cfg_name = ''bsc'', cfg_id = 56, cfg_rpc = ''https://rpc'', cfg_bridge = ''0xBridge'',
      cfg_tokens = [''0xToken'' \<mapsto> ''nUSD'']\<rparr>"

definition example_args :: "receipt_log \<Rightarrow> event_args" where
  "example_args log =
     \<lparr>arg_to = (if ''0xTopicDeposit'' \<in> set (log_topics log) then Some ''0xRecipient'' else Some ''0xUser''),
      arg_chainId = (if ''0xTopicDeposit'' \<in> set (log_topics log) then Some 56 else None),
      arg_token = Some ''0xToken'',
      arg_amount = big_value (BigNumber_from (log_data log)),
      arg_fee = Some 10,
      arg_swapTokenIndex = None,
      arg_swapSuccess = None,
      arg_kappa = (if ''0xTopicDeposit'' \<in> set (log_topics log) then None else Some ''0xKappa'')\<rparr>"

definition example_env :: env where
  "example_env =
     \<lparr>getEventForTopic = (\<lambda>t.
        if t = Some ''0xTopicDeposit'' then Some \<lparr>eventName = ''TokenDeposit'', direction = ''OUT''\<rparr>
        else if t = Some ''0xTopicWithdraw'' then Some \<lparr>eventName = ''TokenWithdraw'', direction = ''IN''\<rparr>
        else if t = Some ''0xTopicMint'' then Some \<lparr>eventName = ''TokenMint'', direction = ''IN''\<rparr>
        else None),
      getTopicsHash = [''0xTopicDeposit'', ''0xTopicWithdraw'', ''0xTopicMint''],
      parseLog = (\<lambda>log. Inr (example_args log)),
      decodeFunctionData = (\<lambda>f input. Inr ''0xPool''),
      getToken = (\<lambda>pool i. if i < 3 then Some ''0xCoin'' else None),
      getTokenContract = (\<lambda>i tok. Inr (\<lambda>log. Inr (big_value (BigNumber_from (log_data log))))),
      keccak256 = (\<lambda>s. ''0xKappa''),
      getBlockNumber = Inr 1000,
      getAddress = (\<lambda>a. Inr a),
      queryFilter = (\<lambda>a fromBlock toBlock. Inr []),
      kv_rejects = (\<lambda>c. False)\<rparr>"

definition bridge_event :: "string \<Rightarrow> string \<Rightarrow> receipt_log list \<Rightarrow> event" where
  "bridge_event topic txnHash logs =
     \<lparr>transactionHash = txnHash, ev_topics = [topic],
      getTransaction = Inr (Some \<lparr>txn_from = ''0xSender'', txn_data = ''0x''\<rparr>),
      getBlock = Inr 1700000000,
      getTransactionReceipt = Inr logs\<rparr>"

text \<open>A direct withdraw of amount 1000 with fee 10.\<close>

definition withdraw_event :: event where
  "withdraw_event = bridge_event ''0xTopicWithdraw'' ''0xTxnIn''
     [\<lparr>log_address = ''0xBridge'', log_topics = [''0xTopicWithdraw''], log_data = ''1000''\<rparr>]"

text \<open>A deposit: the token's transfer log, then the bridge's event.\<close>

definition deposit_event :: event where
  "deposit_event = bridge_event ''0xTopicDeposit'' ''0xTxnOut''
     [\<lparr>log_address = ''0xToken'', log_topics = [''0xTransfer''], log_data = ''0x3e8''\<rparr>,
      \<lparr>log_address = ''0xBridge'', log_topics = [''0xTopicDeposit''], log_data = ''1000''\<rparr>]"

text \<open>An event whose topic is not registered.\<close>

definition unknown_event :: event where
  "unknown_event = bridge_event ''0xTopicUnknown'' ''0xTxnX'' []"

text \<open>Two logs as the mint correction rescans them: a value equal to the amount 100, then 500.\<close>

definition mint_logs :: "receipt_log list" where
  "mint_logs =
     [\<lparr>log_address = ''0xToken'', log_topics = [''0xTransfer''], log_data = ''100''\<rparr>,
      \<lparr>log_address = ''0xOther'', log_topics = [''0xTransfer''], log_data = ''500''\<rparr>]"

text \<open>A pool of three coins: the call for index 3 reverts.\<close>

definition three_coin_pool :: "nat \<Rightarrow> string option" where
  "three_coin_pool i = (if i < 3 then Some ''0xCoin'' else None)"

text \<open>
  The periodic trigger: one pass of the indexing loop after the other, each against the
  chain as it is at that moment.
\<close>

fun index_passes :: "env list \<Rightarrow> chain_config \<Rightarrow> redis \<times> db \<Rightarrow> redis \<times> db" where
  "index_passes [] chainConfig st = st"
| "index_passes (e # es) chainConfig st = index_passes es chainConfig (snd (indexForward e chainConfig st))"


text \<open>A bridge interface whose parsed arguments carry no kappa.\<close>

definition no_kappa_env :: env where
  "no_kappa_env = example_env\<lparr>parseLog := (\<lambda>log. Inr ((example_args log)\<lparr>arg_kappa := None\<rparr>))\<rparr>"



text \<open>The store after the deposit alone, and the record of the matching IN leg.\<close>

definition example_out_store :: db where
  "example_out_store = fst (processEvents example_env example_config [deposit_event] [])"

definition example_in_record :: obj where
  "example_in_record =
     in_record example_config ''0xTxnIn'' 1700000000 (JStr ''0xKappa'')
       \<lparr>data_to = Some ''0xUser'', data_fee = Some 10, data_amount = Some 1000\<rparr>
       JNull (RNum (Number 980)) (Some ''0xToken'')"

text \<open>The fields that only the OUT leg writes.\<close>

definition out_only_fields :: "string list" where
  "out_only_fields =
     [''fromTxnHash'', ''fromAddress'', ''fromChainId'', ''sentValue'', ''sentTokenAddress'',
      ''sentTokenSymbol'', ''sentTime'']"

section \<open>Properties\<close>

declare nat_to_string.simps [simp del]

declare probe_loop.simps [simp del]

declare bit_len.simps [simp del]

declare dec_string.simps [simp del]

lemma probe_cap_256: "probe_cap = 256"
  by (simp add: probe_cap_def)

subsection \<open>The resolver\<close>

lemma probe_loop_inv:
  "probe_loop g i res calls = (r, c) \<Longrightarrow> i = length res \<Longrightarrow> calls = [0..<i] \<Longrightarrow>
   i \<le> probe_cap \<Longrightarrow> (\<forall>j<i. g j = Some (res ! j)) \<Longrightarrow>
   length r \<le> probe_cap \<and> c = [0..<length c] \<and> (\<forall>j<length r. g j = Some (r ! j)) \<and>
   (if length r < probe_cap then g (length r) = None \<and> length c = Suc (length r)
    else length c = probe_cap)"
proof (induction g i res calls rule: probe_loop.induct)
  case (1 g i res calls)
  show ?case
  proof (cases "i < probe_cap")
    case False
    have "probe_loop g i res calls = (res, calls)"
      using False by (simp add: probe_loop.simps[of g i])
    with 1(2) have "r = res" "c = calls" by simp_all
    with 1(3-) False show ?thesis by auto
  next
    case True
    show ?thesis
    proof (cases "g i")
      case None
      have "probe_loop g i res calls = (res, calls @ [i])"
        using True None by (simp add: probe_loop.simps[of g i])
      with 1(2) have "r = res" "c = calls @ [i]" by simp_all
      with 1(3-) True None show ?thesis by auto
    next
      case (Some t)
      have step: "probe_loop g (Suc i) (res @ [t]) (calls @ [i]) = (r, c)"
        using 1(2) True Some by (simp add: probe_loop.simps[of g i])
      show ?thesis
        by (rule 1(1)[OF True Some step])
          (use 1(3-) True Some in \<open>auto simp: nth_append less_Suc_eq\<close>)
    qed
  qed
qed

text \<open>
  C9. The resolver probes the indices 0, 1, 2, ... in this order and at most 256 of
  them; every coin it returns is the answer to the probe of its index; when it returns
  fewer than 256 coins, the probe right after the last coin failed and was the last
  call, so the first failing call ends the list without an error. A pool that answers
  the indices 0, 1, 2 and reverts at index 3 gives a list of three coins.
\<close>

theorem getSwapPoolCoinAddresses_probes:
  "case getSwapPoolCoinAddresses pool of
     (res, calls) \<Rightarrow>
       calls = [0..<length calls] \<and> length calls \<le> 256 \<and> length res \<le> 256 \<and>
       (\<forall>i<length res. pool i = Some (res ! i)) \<and>
       (if length res < 256 then pool (length res) = None \<and> length calls = Suc (length res)
        else length calls = 256) \<and>
       ((\<forall>i<3. pool i \<noteq> None) \<and> pool 3 = None \<longrightarrow> length res = 3)"
proof -
  obtain res calls where rc: "getSwapPoolCoinAddresses pool = (res, calls)"
    by (cases "getSwapPoolCoinAddresses pool")
  then have loop: "probe_loop pool 0 [] [] = (res, calls)"
    by (simp add: getSwapPoolCoinAddresses_def)
  have inv0: "length res \<le> probe_cap \<and> calls = [0..<length calls] \<and>
      (\<forall>j<length res. pool j = Some (res ! j)) \<and>
      (if length res < probe_cap then pool (length res) = None \<and> length calls = Suc (length res)
       else length calls = probe_cap)"
    by (rule probe_loop_inv[OF loop]) simp_all
  have a: "calls = [0..<length calls]" using inv0 by blast
  have b: "length res \<le> 256" using inv0 unfolding probe_cap_256 by blast
  have c: "\<forall>i<length res. pool i = Some (res ! i)" using inv0 by blast
  have d: "if length res < 256 then pool (length res) = None \<and> length calls = Suc (length res)
       else length calls = 256" using inv0 unfolding probe_cap_256 by blast
  have e: "length calls \<le> 256"
  proof (cases "length res < 256")
    case True
    with d have "length calls = Suc (length res)" by simp
    with True show ?thesis by linarith
  next
    case False
    with d show ?thesis by simp
  qed
  have three: "(\<forall>i<3. pool i \<noteq> None) \<and> pool 3 = None \<longrightarrow> length res = 3"
  proof (intro impI, elim conjE)
    assume ok: "\<forall>i<3. pool i \<noteq> None" and bad: "pool 3 = None"
    show "length res = 3"
    proof (rule ccontr)
      assume ne: "length res \<noteq> 3"
      show False
      proof (cases "length res < 3")
        case True
        then have "length res < 256" by linarith
        with d have "pool (length res) = None" by simp
        moreover from ok True have "pool (length res) \<noteq> None" by blast
        ultimately show False by blast
      next
        case False
        with ne have "3 < length res" by linarith
        with c have "pool 3 = Some (res ! 3)" by blast
        with bad show False by simp
      qed
    qed
  qed
  from a e b c d three show ?thesis
    unfolding rc prod.case by blast
qed

lemma three_coin_pool_result:
  "getSwapPoolCoinAddresses three_coin_pool = ([''0xCoin'', ''0xCoin'', ''0xCoin''], [0, 1, 2, 3])"
  by (simp add: getSwapPoolCoinAddresses_def probe_loop.simps[of three_coin_pool]
      three_coin_pool_def probe_cap_256)

theorem getSwapPoolCoinAddresses_probes_witness:
  "three_coin_pool 0 \<noteq> None \<and> three_coin_pool 1 \<noteq> None \<and> three_coin_pool 2 \<noteq> None \<and>
   three_coin_pool 3 = None \<and>
   length (fst (getSwapPoolCoinAddresses three_coin_pool)) = 3 \<and>
   snd (getSwapPoolCoinAddresses three_coin_pool) = [0, 1, 2, 3]"
  using getSwapPoolCoinAddresses_probes[of three_coin_pool]
  by (simp add: three_coin_pool_result) (simp add: three_coin_pool_def)

subsection \<open>The upsert\<close>

lemma map_add_self: "(m :: 'a \<rightharpoonup> 'b) ++ m = m"
  by (rule ext) (simp add: map_add_def split: option.splits)

lemma map_add_twice: "(d :: 'a \<rightharpoonup> 'b) ++ m ++ m = d ++ m"
  by (rule ext) (simp add: map_add_def split: option.splits)

lemma find_append_None: "find P xs = None \<Longrightarrow> find P (xs @ ys) = find P ys"
  by (induction xs) (auto split: if_splits)

lemma findOneAndUpdate_append:
  "find (matches k) xs = None \<Longrightarrow> findOneAndUpdate k a (xs @ ys) = xs @ findOneAndUpdate k a ys"
  by (induction xs) (auto split: if_splits)

lemma findOneAndUpdate_twice:
  "(\<And>d. matches k d \<Longrightarrow> matches k (d ++ stored_fields a)) \<Longrightarrow>
   findOneAndUpdate k a (findOneAndUpdate k a xs) = findOneAndUpdate k a xs"
  by (induction xs) (auto simp: map_add_twice)

lemma findOne_findOneAndUpdate:
  "(\<And>d. matches k d \<Longrightarrow> matches k (d ++ stored_fields a)) \<Longrightarrow> find (matches k) xs = Some d \<Longrightarrow>
   find (matches k) (findOneAndUpdate k a xs) = Some (d ++ stored_fields a)"
  by (induction xs) (auto split: if_splits)

lemma matches_keeps_own:
  "stored_fields a ''kappa'' = Some k \<Longrightarrow> matches k (d ++ stored_fields a)"
  by (simp add: matches_def map_add_def)

lemma stored_kappa:
  "a ''kappa'' = Some k \<Longrightarrow> k \<noteq> JUndefined \<Longrightarrow> stored_fields a ''kappa'' = Some k"
  by (cases k) (simp_all add: stored_fields_def)

lemma upsert_twice_own:
  assumes own: "stored_fields a ''kappa'' = Some k"
  shows "upsertBridgeTxnInDb k a (upsertBridgeTxnInDb k a store) = upsertBridgeTxnInDb k a store"
proof (cases "findOne k store")
  case None
  then have nf: "find (matches k) store = None" by (simp add: findOne_def)
  have u1: "upsertBridgeTxnInDb k a store = store @ [stored_fields a]"
    using None by (simp add: upsertBridgeTxnInDb_def save_def)
  have m: "matches k (stored_fields a)" using own by (simp add: matches_def)
  have "findOne k (store @ [stored_fields a]) = Some (stored_fields a)"
    using nf m by (simp add: findOne_def find_append_None)
  then have "upsertBridgeTxnInDb k a (store @ [stored_fields a]) =
      findOneAndUpdate k a (store @ [stored_fields a])"
    by (simp add: upsertBridgeTxnInDb_def)
  also have "\<dots> = store @ [stored_fields a]"
    using nf m by (simp add: findOneAndUpdate_append map_add_self)
  finally show ?thesis by (simp add: u1)
next
  case (Some d)
  then have f: "find (matches k) store = Some d" by (simp add: findOne_def)
  have u1: "upsertBridgeTxnInDb k a store = findOneAndUpdate k a store"
    using Some by (simp add: upsertBridgeTxnInDb_def)
  have "findOne k (findOneAndUpdate k a store) = Some (d ++ stored_fields a)"
    unfolding findOne_def by (rule findOne_findOneAndUpdate[OF matches_keeps_own[OF own] f])
  then have "upsertBridgeTxnInDb k a (findOneAndUpdate k a store) =
      findOneAndUpdate k a (findOneAndUpdate k a store)"
    by (simp add: upsertBridgeTxnInDb_def)
  also have "\<dots> = findOneAndUpdate k a store"
    by (rule findOneAndUpdate_twice[OF matches_keeps_own[OF own]])
  finally show ?thesis by (simp add: u1)
qed

lemma upsert_found:
  assumes own: "stored_fields a ''kappa'' = Some k"
  shows "\<exists>d. findOne k (upsertBridgeTxnInDb k a store) = Some d \<and>
           (\<forall>f v. stored_fields a f = Some v \<longrightarrow> d f = Some v)"
proof (cases "findOne k store")
  case None
  then have nf: "find (matches k) store = None" by (simp add: findOne_def)
  have m: "matches k (stored_fields a)" using own by (simp add: matches_def)
  have "findOne k (upsertBridgeTxnInDb k a store) = Some (stored_fields a)"
    using None nf m by (simp add: upsertBridgeTxnInDb_def save_def findOne_def find_append_None)
  then show ?thesis by simp
next
  case (Some d0)
  then have f: "find (matches k) store = Some d0" by (simp add: findOne_def)
  have "findOne k (upsertBridgeTxnInDb k a store) = Some (d0 ++ stored_fields a)"
    using Some findOne_findOneAndUpdate[OF matches_keeps_own[OF own] f]
    by (simp add: upsertBridgeTxnInDb_def findOne_def)
  then show ?thesis by (simp add: map_add_def)
qed

text \<open>
  C4, as the code has it. The upsert is idempotent for a partial record that carries,
  as its \<open>kappa\<close> field, the kappa it is upserted under: applying it twice leaves the
  whole store as applying it once, and the record found under the kappa holds every
  defined field of the partial record.
\<close>

theorem upsertBridgeTxnInDb_idempotent:
  assumes "args ''kappa'' = Some kappa" and "kappa \<noteq> JUndefined"
  shows "upsertBridgeTxnInDb kappa args (upsertBridgeTxnInDb kappa args store) =
           upsertBridgeTxnInDb kappa args store \<and>
         (\<exists>d. findOne kappa (upsertBridgeTxnInDb kappa args store) = Some d \<and>
            (\<forall>f v. stored_fields args f = Some v \<longrightarrow> d f = Some v))"
proof -
  have own: "stored_fields args ''kappa'' = Some kappa"
    using assms by (rule stored_kappa[of args kappa])
  show ?thesis
    using upsert_twice_own[OF own, of store] upsert_found[OF own, of store] by (rule conjI)
qed

theorem upsertBridgeTxnInDb_idempotent_witness:
  "example_in_record ''kappa'' = Some (JStr ''0xKappa'') \<and> JStr ''0xKappa'' \<noteq> JUndefined \<and>
   upsertBridgeTxnInDb (JStr ''0xKappa'') example_in_record
     (upsertBridgeTxnInDb (JStr ''0xKappa'') example_in_record example_out_store) =
   upsertBridgeTxnInDb (JStr ''0xKappa'') example_in_record example_out_store \<and>
   findOne (JStr ''0xKappa'')
     (upsertBridgeTxnInDb (JStr ''0xKappa'') example_in_record example_out_store) \<noteq> None"
proof -
  have h1: "example_in_record ''kappa'' = Some (JStr ''0xKappa'')"
    by (simp add: example_in_record_def in_record_def)
  have h2: "JStr ''0xKappa'' \<noteq> JUndefined" by simp
  from upsertBridgeTxnInDb_idempotent[of example_in_record "JStr ''0xKappa''" example_out_store] h1 h2
  show ?thesis by auto
qed

text \<open>
  C4 as stated fails for a partial record that does not carry the kappa: no stored
  document matches the filter after the first application, so the second one inserts
  again. The empty record under kappa \<open>a\<close> gives one document, then two; an IN event
  whose parsed arguments have no kappa, processed twice, gives two records.
\<close>

theorem upsertBridgeTxnInDb_idempotent_counterexample:
  "length (upsertBridgeTxnInDb (JStr ''a'') Map.empty []) = 1 \<and>
   length (upsertBridgeTxnInDb (JStr ''a'') Map.empty
             (upsertBridgeTxnInDb (JStr ''a'') Map.empty [])) = 2 \<and>
   length (fst (processEvents no_kappa_env example_config [withdraw_event] [])) = 1 \<and>
   length (fst (processEvents no_kappa_env example_config [withdraw_event, withdraw_event] [])) = 2"
  by code_simp

lemma in_record_kappa: "stored_fields (in_record cfg h ts kappa dat sw rv tok) ''kappa'' = Some kappa" if "kappa \<noteq> JUndefined"
  using that by (cases kappa) (simp_all add: stored_fields_def in_record_def)

lemma out_store_doc:
  "case findOne (JStr ''0xKappa'') example_out_store of
     None \<Rightarrow> False
   | Some d \<Rightarrow> d ''fromTxnHash'' = Some (JStr ''0xTxnOut'') \<and> d ''sentValue'' = Some (JStr ''1000'') \<and>
       d ''toAddress'' = Some (JStr ''0xRecipient'') \<and> d ''pending'' = Some (JBool True) \<and>
       d ''receivedValue'' = None"
  by code_simp

text \<open>
  C3, as the code has it. When the store holds a record for the kappa, upserting the IN
  record gives a record that has every defined field of the IN record and, for every
  other field, the stored value. The fields written by the OUT leg alone are kept,
  \<open>pending\<close> becomes false, and the fields that both legs write (\<open>toAddress\<close>,
  \<open>toChainId\<close>, \<open>kappa\<close>) take the IN leg's values.
\<close>

theorem upsert_in_record_merges:
  assumes found: "findOne kappa store = Some d" and defined: "kappa \<noteq> JUndefined"
  shows "\<exists>d'. findOne kappa (upsertBridgeTxnInDb kappa (in_record cfg h ts kappa dat sw rv tok) store) = Some d' \<and>
      (\<forall>f. d' f = (case stored_fields (in_record cfg h ts kappa dat sw rv tok) f of
                      Some v \<Rightarrow> Some v | None \<Rightarrow> d f)) \<and>
      (\<forall>f \<in> set out_only_fields. d' f = d f) \<and>
      d' ''pending'' = Some (JBool False) \<and>
      d' ''kappa'' = Some kappa \<and>
      d' ''toTxnHash'' = Some (JStr h) \<and>
      d' ''toChainId'' = Some (JNum (cfg_id cfg)) \<and>
      d' ''toAddress'' = (case data_to dat of None \<Rightarrow> d ''toAddress'' | Some a \<Rightarrow> Some (JStr a))"
proof -
  let ?a = "in_record cfg h ts kappa dat sw rv tok"
  let ?d' = "d ++ stored_fields ?a"
  have f: "find (matches kappa) store = Some d" using found by (simp add: findOne_def)
  have u: "upsertBridgeTxnInDb kappa ?a store = findOneAndUpdate kappa ?a store"
    using found by (simp add: upsertBridgeTxnInDb_def)
  have 1: "findOne kappa (upsertBridgeTxnInDb kappa ?a store) = Some ?d'"
    unfolding u findOne_def
    by (rule findOne_findOneAndUpdate[OF matches_keeps_own[OF in_record_kappa[OF defined]] f])
  have 2: "\<forall>f. ?d' f = (case stored_fields ?a f of Some v \<Rightarrow> Some v | None \<Rightarrow> d f)"
    by (simp add: map_add_def split: option.splits)
  have 3: "\<forall>f \<in> set out_only_fields. ?d' f = d f"
    by (simp add: out_only_fields_def map_add_def stored_fields_def in_record_def)
  have 4: "?d' ''pending'' = Some (JBool False)" "?d' ''toTxnHash'' = Some (JStr h)"
     "?d' ''toChainId'' = Some (JNum (cfg_id cfg))"
    by (simp_all add: map_add_def stored_fields_def in_record_def)
  have 5: "?d' ''kappa'' = Some kappa"
    by (simp add: map_add_def in_record_kappa[OF defined])
  have 6: "?d' ''toAddress'' = (case data_to dat of None \<Rightarrow> d ''toAddress'' | Some a \<Rightarrow> Some (JStr a))"
    by (cases "data_to dat") (simp_all add: map_add_def stored_fields_def in_record_def)
  show ?thesis
    by (rule exI[of _ ?d']) (use 1 2 3 4 5 6 in blast)
qed

theorem upsert_in_record_merges_witness:
  "findOne (JStr ''0xKappa'') example_out_store \<noteq> None \<and> JStr ''0xKappa'' \<noteq> JUndefined \<and>
   (\<exists>d'. findOne (JStr ''0xKappa'')
            (upsertBridgeTxnInDb (JStr ''0xKappa'') example_in_record example_out_store) = Some d' \<and>
      d' ''fromTxnHash'' = Some (JStr ''0xTxnOut'') \<and> d' ''sentValue'' = Some (JStr ''1000'') \<and>
      d' ''receivedValue'' = Some (JNum 980) \<and>
      d' ''toAddress'' = Some (JStr ''0xUser'') \<and> d' ''pending'' = Some (JBool False))"
proof -
  obtain d where d: "findOne (JStr ''0xKappa'') example_out_store = Some d"
    and dv: "d ''fromTxnHash'' = Some (JStr ''0xTxnOut'')" "d ''sentValue'' = Some (JStr ''1000'')"
    using out_store_doc by (auto split: option.splits)
  have rvs: "stored_fields example_in_record ''receivedValue'' = Some (JNum 980)"
    by (simp add: example_in_record_def in_record_def stored_fields_def)
  from upsert_in_record_merges[OF d, of example_config "''0xTxnIn''" 1700000000
      "\<lparr>data_to = Some ''0xUser'', data_fee = Some 10, data_amount = Some 1000\<rparr>"
      JNull "RNum (Number 980)" "Some ''0xToken''"]
  obtain d' where
    1: "findOne (JStr ''0xKappa'')
          (upsertBridgeTxnInDb (JStr ''0xKappa'') example_in_record example_out_store) = Some d'"
    and 2: "\<forall>f. d' f = (case stored_fields example_in_record f of Some v \<Rightarrow> Some v | None \<Rightarrow> d f)"
    and 3: "\<forall>f \<in> set out_only_fields. d' f = d f"
    and 4: "d' ''pending'' = Some (JBool False)"
    and 5: "d' ''toAddress'' = Some (JStr ''0xUser'')"
    unfolding example_in_record_def[symmetric] by auto
  from 3 dv have "d' ''fromTxnHash'' = Some (JStr ''0xTxnOut'')" "d' ''sentValue'' = Some (JStr ''1000'')"
    by (simp_all add: out_only_fields_def)
  moreover from 2 rvs have "d' ''receivedValue'' = Some (JNum 980)" by simp
  ultimately show ?thesis using d 1 4 5 by simp
qed

text \<open>
  C3 as stated fails: the deposit stored \<open>toAddress\<close> and \<open>toChainId\<close>, and the
  upsert of the IN leg replaced both.
\<close>

theorem upsert_in_record_overwrites_counterexample:
  "map (\<lambda>d. d ''toAddress'') example_out_store = [Some (JStr ''0xRecipient'')] \<and>
   map (\<lambda>d. d ''toChainId'') example_out_store = [Some (JStr ''56'')] \<and>
   map (\<lambda>d. d ''receivedValue'') example_out_store = [None] \<and>
   map (\<lambda>d. d ''toAddress'')
     (fst (processEvents example_env example_config [withdraw_event] example_out_store)) =
     [Some (JStr ''0xUser'')] \<and>
   map (\<lambda>d. d ''toChainId'')
     (fst (processEvents example_env example_config [withdraw_event] example_out_store)) =
     [Some (JNum 56)]"
  by code_simp


subsection \<open>The OUT record\<close>

lemma last_nat_to_string: "last (nat_to_string n) = digit_char (n mod 10)"
  by (subst nat_to_string.simps) simp

lemma nat_to_string_not_fromAddress: "nat_to_string i \<noteq> ''fromAddress''"
proof
  assume eq: "nat_to_string i = ''fromAddress''"
  have "last (nat_to_string i) = CHR ''s''" by (simp add: eq)
  then have "digit_char (i mod 10) = CHR ''s''" by (simp add: last_nat_to_string)
  then have "(of_char (char_of (48 + i mod 10)) :: nat) = of_char CHR ''s''"
    by (simp add: digit_char_def)
  moreover have "48 + i mod 10 < 58" by simp
  ultimately show False by simp
qed

lemma string_property_fromAddress: "string_property s ''fromAddress'' = JUndefined"
proof -
  have "find (\<lambda>i. nat_to_string i = ''fromAddress'') [0..<length s] = None"
    by (simp add: find_None_iff nat_to_string_not_fromAddress)
  then show ?thesis by (simp add: string_property_def)
qed

lemma process_out_fromAddress:
  "process_out e cfg h txn ts args logs = Inr (kappa, r) \<Longrightarrow> r ''fromAddress'' = Some JUndefined"
  by (auto simp: process_out_def Let_def string_property_fromAddress
      split: option.splits sum.splits)

lemma findOneAndUpdate_other_field:
  "stored_fields a f = None \<Longrightarrow>
   map (\<lambda>d. d f) (findOneAndUpdate k a xs) = map (\<lambda>d. d f) xs"
  by (induction xs) (simp_all add: map_add_def)

lemma upsert_other_field:
  "stored_fields a f = None \<Longrightarrow>
   map (\<lambda>d. d f) (upsertBridgeTxnInDb k a store) =
   map (\<lambda>d. d f) store @ (case findOne k store of None \<Rightarrow> [None] | Some d \<Rightarrow> [])"
  by (simp add: upsertBridgeTxnInDb_def save_def findOneAndUpdate_other_field split: option.splits)

text \<open>
  C10. For every OUT event that reaches the upsert, the partial record has the property
  \<open>fromAddress\<close> with the value \<open>undefined\<close>, whatever the transaction's
  sender is: the name is read from the sender string, which has no such property. The
  store does not keep it, so the upsert leaves the \<open>fromAddress\<close> of every stored
  record as it was and a new record has none.
\<close>

theorem out_record_fromAddress_undefined:
  assumes "extract_event e cfg ev = Inr (Some (kappa, r))"
    and "getEventForTopic e (array_get (ev_topics ev) (Some 0)) = Some info"
    and "direction info = ''OUT''"
  shows "r ''fromAddress'' = Some JUndefined \<and>
         stored_fields r ''fromAddress'' = None \<and>
         map (\<lambda>d. d ''fromAddress'') (upsertBridgeTxnInDb kappa r store) =
           map (\<lambda>d. d ''fromAddress'') store @
           (case findOne kappa store of None \<Rightarrow> [None] | Some d \<Rightarrow> [])"
proof -
  from assms obtain txn ts args logs where
    "process_out e cfg (transactionHash ev) txn ts args logs = Inr (kappa, r)"
    by (auto simp: extract_event_def split: sum.splits option.splits)
  then have 1: "r ''fromAddress'' = Some JUndefined" by (rule process_out_fromAddress)
  then have 2: "stored_fields r ''fromAddress'' = None" by (simp add: stored_fields_def)
  from 1 2 upsert_other_field[OF 2] show ?thesis by simp
qed

theorem out_record_fromAddress_undefined_witness:
  "getEventForTopic example_env (array_get (ev_topics deposit_event) (Some 0)) =
     Some \<lparr>eventName = ''TokenDeposit'', direction = ''OUT''\<rparr> \<and>
   (\<exists>r. extract_event example_env example_config deposit_event = Inr (Some (JStr ''0xKappa'', r)) \<and>
      r ''fromAddress'' = Some JUndefined \<and>
      map (\<lambda>d. d ''fromAddress'') (upsertBridgeTxnInDb (JStr ''0xKappa'') r []) = [None])"
proof -
  have t: "getEventForTopic example_env (array_get (ev_topics deposit_event) (Some 0)) =
     Some \<lparr>eventName = ''TokenDeposit'', direction = ''OUT''\<rparr>"
    by code_simp
  have "case extract_event example_env example_config deposit_event of
          Inr (Some (k, r)) \<Rightarrow> k = JStr ''0xKappa'' | _ \<Rightarrow> False"
    by code_simp
  then obtain r where x: "extract_event example_env example_config deposit_event = Inr (Some (JStr ''0xKappa'', r))"
    by (auto split: sum.splits option.splits)
  from out_record_fromAddress_undefined[OF x t, of "[]"]
  have "r ''fromAddress'' = Some JUndefined \<and>
      map (\<lambda>d. d ''fromAddress'') (upsertBridgeTxnInDb (JStr ''0xKappa'') r []) = [None]"
    by (simp add: findOne_def)
  then have ex: "\<exists>r. extract_event example_env example_config deposit_event = Inr (Some (JStr ''0xKappa'', r)) \<and>
      r ''fromAddress'' = Some JUndefined \<and>
      map (\<lambda>d. d ''fromAddress'') (upsertBridgeTxnInDb (JStr ''0xKappa'') r []) = [None]"
    using x by (intro exI[of _ r]) simp
  show ?thesis by (rule conjI[OF t ex])
qed

subsection \<open>Unknown topics\<close>

lemma processEvents_append:
  "processEvents e cfg (pre @ post) store =
     (case processEvents e cfg pre store of
        (s, Some err) \<Rightarrow> (s, Some err)
      | (s, None) \<Rightarrow> processEvents e cfg post s)"
  by (induction pre arbitrary: store) (auto split: sum.splits option.splits prod.splits)

lemma extract_event_unknown:
  "getEventForTopic e (array_get (ev_topics ev) (Some 0)) = None \<Longrightarrow>
   \<exists>err. extract_event e cfg ev = Inl err"
  by (auto simp: extract_event_def split: sum.splits)

lemma extract_event_unknown_error:
  "getEventForTopic e (array_get (ev_topics ev) (Some 0)) = None \<Longrightarrow>
   getTransaction ev = Inr txn \<Longrightarrow> getBlock ev = Inr ts \<Longrightarrow>
   extract_event e cfg ev = Inl UnknownTopic"
  by (simp add: extract_event_def)

text \<open>
  C7, as the code has it. An event whose first topic the classifier does not know ends
  the batch with an error: the store is the one the earlier events left, so neither
  this event nor a later one writes a record, and the error is \<open>UnknownTopic\<close> when
  the earlier events and the event's own transaction and block look-ups succeeded.
\<close>

theorem processEvents_unknown_topic_aborts:
  assumes unknown: "getEventForTopic e (array_get (ev_topics ev) (Some 0)) = None"
  shows "fst (processEvents e cfg (pre @ ev # post) store) = fst (processEvents e cfg pre store) \<and>
         snd (processEvents e cfg (pre @ ev # post) store) \<noteq> None \<and>
         (snd (processEvents e cfg pre store) = None \<and> getTransaction ev = Inr txn \<and>
          getBlock ev = Inr ts \<longrightarrow>
            snd (processEvents e cfg (pre @ ev # post) store) = Some UnknownTopic)"
proof -
  obtain err where x: "extract_event e cfg ev = Inl err"
    using extract_event_unknown[OF unknown] by blast
  obtain s r where p: "processEvents e cfg pre store = (s, r)"
    by (cases "processEvents e cfg pre store")
  have 1: "fst (processEvents e cfg (pre @ ev # post) store) = s"
    and 2: "snd (processEvents e cfg (pre @ ev # post) store) \<noteq> None"
    by (cases r; simp add: processEvents_append p x)+
  have 3: "snd (processEvents e cfg (pre @ ev # post) store) = Some UnknownTopic"
    if "r = None" "getTransaction ev = Inr txn" "getBlock ev = Inr ts"
    using that extract_event_unknown_error[OF unknown that(2,3), of cfg]
    by (simp add: processEvents_append p)
  from 1 2 3 show ?thesis by (simp add: p)
qed

theorem processEvents_unknown_topic_aborts_witness:
  "getEventForTopic example_env (array_get (ev_topics unknown_event) (Some 0)) = None \<and>
   snd (processEvents example_env example_config [deposit_event] []) = None \<and>
   fst (processEvents example_env example_config ([deposit_event] @ unknown_event # [withdraw_event]) []) =
     fst (processEvents example_env example_config [deposit_event] []) \<and>
   snd (processEvents example_env example_config ([deposit_event] @ unknown_event # [withdraw_event]) []) =
     Some UnknownTopic"
proof -
  have u: "getEventForTopic example_env (array_get (ev_topics unknown_event) (Some 0)) = None"
    by code_simp
  have s: "snd (processEvents example_env example_config [deposit_event] []) = None"
    by code_simp
  have g: "getTransaction unknown_event = Inr (Some \<lparr>txn_from = ''0xSender'', txn_data = ''0x''\<rparr>)"
      "getBlock unknown_event = Inr 1700000000"
    by (simp_all add: unknown_event_def bridge_event_def)
  from processEvents_unknown_topic_aborts[OF u, of example_config "[deposit_event]" "[withdraw_event]" "[]"]
    u s g show ?thesis by simp
qed

text \<open>
  C7 as stated fails: after the unknown event the deposit of the same batch is not
  processed, although alone it gives a record.
\<close>

theorem processEvents_unknown_topic_counterexample:
  "length (fst (processEvents example_env example_config [unknown_event, deposit_event] [])) = 0 \<and>
   snd (processEvents example_env example_config [unknown_event, deposit_event] []) = Some UnknownTopic \<and>
   length (fst (processEvents example_env example_config [deposit_event] [])) = 1 \<and>
   snd (processEvents example_env example_config [deposit_event] []) = None"
  by code_simp


subsection \<open>The mint correction\<close>

lemma mint_rescan_result:
  "mint_rescan amount logs cur = Inr (rv', tok') \<Longrightarrow> logs \<noteq> [] \<Longrightarrow>
   \<exists>a i v. amount = Some a \<and> i < length logs \<and>
     BigNumber_from (log_data (logs ! i)) = Big v \<and>
     rv' = RBig v \<and> tok' = Some (log_address (logs ! i)) \<and>
     (\<forall>j<i. \<exists>w. BigNumber_from (log_data (logs ! j)) = Big w \<and> a \<le> w) \<and>
     (v < a \<or> i = length logs - 1)"
proof (induction logs arbitrary: cur)
  case Nil
  then show ?case by simp
next
  case (Cons log rest)
  from Cons.prems(1) obtain v a where
    v: "BigNumber_from (log_data log) = Big v" and a: "amount = Some a"
    by (auto split: big_parse.splits option.splits)
  show ?case
  proof (cases "a > v")
    case True
    with Cons.prems(1) v a have "rv' = RBig v" "tok' = Some (log_address log)" by simp_all
    with True v a show ?thesis by (intro exI[of _ a] exI[of _ 0] exI[of _ v]) simp
  next
    case False
    with Cons.prems(1) v a
    have rec: "mint_rescan amount rest (RBig v, Some (log_address log)) = Inr (rv', tok')"
      by simp
    show ?thesis
    proof (cases rest)
      case Nil
      with rec have "rv' = RBig v" "tok' = Some (log_address log)" by simp_all
      with Nil v a show ?thesis by (intro exI[of _ a] exI[of _ 0] exI[of _ v]) simp
    next
      case (Cons l ls)
      then have "rest \<noteq> []" by simp
      from Cons.IH[OF rec this] obtain a' i w where
        ih: "amount = Some a'" "i < length rest" "BigNumber_from (log_data (rest ! i)) = Big w"
          "rv' = RBig w" "tok' = Some (log_address (rest ! i))"
          "\<forall>j<i. \<exists>u. BigNumber_from (log_data (rest ! j)) = Big u \<and> a' \<le> u"
          "w < a' \<or> i = length rest - 1"
        by blast
      from ih(1) a have aa: "a' = a" by simp
      have before: "\<forall>j<Suc i. \<exists>u. BigNumber_from (log_data ((log # rest) ! j)) = Big u \<and> a \<le> u"
      proof (intro allI impI)
        fix j assume "j < Suc i"
        show "\<exists>u. BigNumber_from (log_data ((log # rest) ! j)) = Big u \<and> a \<le> u"
        proof (cases j)
          case 0
          with v False show ?thesis by simp
        next
          case (Suc j')
          with \<open>j < Suc i\<close> ih(6) aa show ?thesis by simp
        qed
      qed
      have last: "w < a \<or> Suc i = length (log # rest) - 1"
        using ih(7) ih(2) aa by auto
      show ?thesis
        by (intro exI[of _ a] exI[of _ "Suc i"] exI[of _ w])
          (use a ih(2,3,4,5) before last in simp)
    qed
  qed
qed

text \<open>
  C8, as the code has it. The correction applies to the mint variant only. There, when
  the scanned value disagrees with the decoded amount, the receipt logs are rescanned in
  order, each log's raw data and address being the candidate value and token. The
  rescan stops at the first candidate whose value is strictly below the decoded amount;
  the candidates before it are all at least the amount; when no candidate is below the
  amount, the last log's candidate stays.
\<close>

theorem mint_correction_rescan:
  assumes "mint_correction name amount logs (rv, tok) = Inr (rv', tok')"
  shows "(name \<noteq> ''TokenMint'' \<longrightarrow> rv' = rv \<and> tok' = tok) \<and>
         (name = ''TokenMint'' \<and> rv = RBig scanned \<and> amount = Some a \<and> scanned \<noteq> a \<and>
          logs \<noteq> [] \<longrightarrow>
            (\<exists>i v. i < length logs \<and>
               BigNumber_from (log_data (logs ! i)) = Big v \<and>
               rv' = RBig v \<and> tok' = Some (log_address (logs ! i)) \<and>
               (\<forall>j<i. \<exists>w. BigNumber_from (log_data (logs ! j)) = Big w \<and> a \<le> w) \<and>
               (v < a \<or> i = length logs - 1)))"
proof (rule conjI; rule impI)
  assume "name \<noteq> ''TokenMint''"
  with assms show "rv' = rv \<and> tok' = tok" by (simp add: mint_correction_def)
next
  assume h: "name = ''TokenMint'' \<and> rv = RBig scanned \<and> amount = Some a \<and> scanned \<noteq> a \<and>
          logs \<noteq> []"
  with assms have "mint_rescan amount logs (rv, tok) = Inr (rv', tok')"
    by (simp add: mint_correction_def)
  from mint_rescan_result[OF this] h
  show "\<exists>i v. i < length logs \<and>
               BigNumber_from (log_data (logs ! i)) = Big v \<and>
               rv' = RBig v \<and> tok' = Some (log_address (logs ! i)) \<and>
               (\<forall>j<i. \<exists>w. BigNumber_from (log_data (logs ! j)) = Big w \<and> a \<le> w) \<and>
               (v < a \<or> i = length logs - 1)"
    by auto
qed

theorem mint_correction_rescan_witness:
  "mint_correction ''TokenMint'' (Some 300) mint_logs (RBig 7, Some ''0xBridge'') =
     Inr (RBig 100, Some ''0xToken'') \<and>
   (7 :: int) \<noteq> 300 \<and> mint_logs \<noteq> [] \<and>
   (\<exists>i v. i < length mint_logs \<and>
      BigNumber_from (log_data (mint_logs ! i)) = Big v \<and>
      RBig 100 = RBig v \<and> Some ''0xToken'' = Some (log_address (mint_logs ! i)) \<and>
      (\<forall>j<i. \<exists>w. BigNumber_from (log_data (mint_logs ! j)) = Big w \<and> 300 \<le> w) \<and>
      (v < 300 \<or> i = length mint_logs - 1))"
proof -
  have r: "mint_correction ''TokenMint'' (Some 300) mint_logs (RBig 7, Some ''0xBridge'') =
     Inr (RBig 100, Some ''0xToken'')"
    by code_simp
  have n: "mint_logs \<noteq> []" by (simp add: mint_logs_def)
  from mint_correction_rescan[OF r, of 7 300] r n show ?thesis by simp
qed

text \<open>
  C8 as stated fails: the scanned value 7 disagrees with the amount 100; the first
  candidate, 100, does not exceed the amount, and the rescan goes on to the second log
  and keeps 500.
\<close>

theorem mint_correction_rescan_counterexample:
  "BigNumber_from (log_data (mint_logs ! 0)) = Big 100 \<and>
   mint_correction ''TokenMint'' (Some 100) mint_logs (RBig 7, Some ''0xBridge'') =
     Inr (RBig 500, Some ''0xOther'')"
  by code_simp

subsection \<open>The fee of a direct withdraw\<close>

lemma process_in_withdraw:
  assumes "arg_amount args = Some a" and "arg_fee args = Some f"
    and "truthy_rvalue (RNum (num_sub (of_int_double a) (of_int_double f)))"
  shows "process_in e cfg ''TokenWithdraw'' h txn ts args logs =
     Inr (Some (js_string (arg_kappa args),
       in_record cfg h ts (js_string (arg_kappa args))
         \<lparr>data_to = arg_to args, data_fee = Some f, data_amount = Some a\<rparr>
         JNull
         (RNum (num_sub (num_sub (of_int_double a) (of_int_double f)) (of_int_double f)))
         (remap_gmx cfg (arg_token args))))"
  using assms
  by (simp add: process_in_def in_branch_def scan_received_value_def mint_correction_def
      fee_adjust_def Let_def)

text \<open>
  C2. The code at the claim's input: a direct withdraw of amount 1000 and fee 10 is
  stored with \<open>receivedValue\<close> 980. The fee is subtracted in the branch of the event
  name and again by the fee adjustment, since \<open>swapSuccess\<close> is still \<open>null\<close>.
\<close>

theorem withdraw_fee_subtracted_twice:
  "map (\<lambda>d. d ''receivedValue'')
     (fst (processEvents example_env example_config [withdraw_event] [])) = [Some (JNum 980)]"
  by code_simp


subsection \<open>The indexing loop\<close>

lemma lock_key_neq_block_key: "lock_key cfg \<noteq> block_key cfg"
  by (simp add: lock_key_def block_key_def)

lemma bit_len_le: "n < 2 ^ k \<Longrightarrow> bit_len n \<le> k"
proof (induction k arbitrary: n)
  case 0
  then show ?case by (simp add: bit_len.simps[of n])
next
  case (Suc k)
  show ?case
  proof (cases "n \<le> 0")
    case True
    then show ?thesis by (simp add: bit_len.simps[of n])
  next
    case False
    from Suc.prems have "n div 2 < 2 ^ k" by simp
    from Suc.IH[OF this] False show ?thesis by (simp add: bit_len.simps[of n])
  qed
qed

lemma of_int_double_exact: "\<bar>n\<bar> < 2 ^ 53 \<Longrightarrow> of_int_double n = Number n"
proof -
  assume "\<bar>n\<bar> < 2 ^ 53"
  then have "bit_len \<bar>n\<bar> \<le> 53" by (rule bit_len_le)
  then show ?thesis by (simp add: of_int_double_def round_double_def Let_def)
qed

lemma window_exact:
  assumes "\<bar>c\<bar> < 2 ^ 52"
  shows "max_block_to_index_until (Number c) head = Number (min head (c + 500))"
proof -
  from assms have "\<bar>c + 500\<bar> < 2 ^ 53" by simp
  then show ?thesis by (simp add: max_block_to_index_until_def of_int_double_exact)
qed










lemma indexForward_absent_checkpoint:
  "fst (snd (indexForward e cfg (r(block_key cfg := None), store))) (block_key cfg) = None \<and>
   snd (snd (indexForward e cfg (r(block_key cfg := None), store))) = store"
  using lock_key_neq_block_key[of cfg]
  by (cases "getBlockNumber e")
    (auto simp: indexForward_def try_body_def indexed_latest_block_def Let_def)

lemma index_passes_absent_checkpoint:
  "r (block_key cfg) = None \<Longrightarrow>
   fst (index_passes es cfg (r, store)) (block_key cfg) = None \<and>
   snd (index_passes es cfg (r, store)) = store"
proof (induction es arbitrary: r)
  case Nil
  then show ?case by simp
next
  case (Cons e es)
  obtain out r1 s1 where st: "indexForward e cfg (r, store) = (out, r1, s1)"
    by (cases "indexForward e cfg (r, store)")
  from Cons.prems have "r(block_key cfg := None) = r"
    by (simp add: fun_upd_idem)
  with indexForward_absent_checkpoint[of e cfg r store] st
  have "r1 (block_key cfg) = None" and "s1 = store" by simp_all
  with Cons.IH[of r1] st show ?case by simp
qed

text \<open>
  C1. The code on a chain with no persisted checkpoint: the pass takes the network's
  latest block as the indexed block, finds the two equal and returns before the
  checkpoint is written. The key stays absent and no document is written, after one
  pass and after any number of passes, whatever the chain does in between.
\<close>

theorem index_passes_never_seed_checkpoint:
  "fst (index_passes es cfg (r(block_key cfg := None), store)) (block_key cfg) = None \<and>
   snd (index_passes es cfg (r(block_key cfg := None), store)) = store"
  by (rule index_passes_absent_checkpoint) simp

text \<open>
  C6. The code on a chain whose reported head, 990, is behind the stored checkpoint,
  1000, and whose log query returns no event: the pass succeeds and writes 990.
\<close>

theorem indexForward_checkpoint_moves_back:
  "indexed_latest_block [block_key example_config \<mapsto> ''1000''] example_config 990 = Number 1000 \<and>
   (case indexForward (example_env\<lparr>getBlockNumber := Inr 990\<rparr>) example_config
           ([block_key example_config \<mapsto> ''1000''], []) of
      (out, r, s) \<Rightarrow> out = Indexed (Number 1000) (Number 990) \<and>
         r (block_key example_config) = Some ''990'')"
  by code_simp

lemma max_block_forward:
  "\<bar>i\<bar> < 2 ^ 52 \<Longrightarrow> i \<le> head \<Longrightarrow>
   \<exists>m. max_block_to_index_until (Number i) head = Number m \<and> i \<le> m \<and> m \<le> head"
  by (simp add: window_exact)

end
